theory Spec2Isabelle
  imports Complex_Main "HOL-Library.Sublist" "HOL-Library.Log_Nat"
begin

section \<open>Conventions of the embedding\<close>

text \<open>
  The service is written in Python. Its numbers that carry seconds or scores are Python
  floats, and a real stands for a finite float. Segmentation and the top-N selection
  compare computed durations with fixed bounds and truncate a quotient, so which and how
  many clips come back depends on binary rounding: there every float operation is rounded
  to binary64 (\<open>fl\<close> below). Scores and caption times are written in exact arithmetic,
  without binary rounding. Python \<open>int\<close> is \<open>int\<close>.
  A Python \<open>str\<close> is a \<open>string\<close> in the hook detector (a \<open>char\<close> stands for a code
  point below 256) and a list of code points where the code inspects \<open>ord\<close>.
  Calls that leave the process (the sentiment model, the media toolchain, the face
  detector, the file system) appear as parameters that carry the outcome of the call.
\<close>

subsection \<open>Python string helpers\<close>

text \<open>\<open>str.isspace\<close> for one character: the code points below 256 that Python counts as
  whitespace.\<close>

definition py_isspace :: "char \<Rightarrow> bool" where
  "py_isspace c = ((of_char c :: nat) \<in> {9, 10, 11, 12, 13, 28, 29, 30, 31, 32, 133, 160})"

text \<open>\<open>str.strip()\<close>.\<close>

definition py_strip :: "string \<Rightarrow> string" where
  "py_strip t = rev (dropWhile py_isspace (rev (dropWhile py_isspace t)))"

text \<open>\<open>str.split()\<close> with no argument: maximal runs of non-whitespace.\<close>

fun py_split_acc :: "string \<Rightarrow> string \<Rightarrow> string list" where
  "py_split_acc cur [] = (if cur = [] then [] else [cur])"
| "py_split_acc cur (c # cs) =
     (if py_isspace c
      then (if cur = [] then py_split_acc [] cs else cur # py_split_acc [] cs)
      else py_split_acc (cur @ [c]) cs)"

definition py_split :: "string \<Rightarrow> string list" where
  "py_split t = py_split_acc [] t"

text \<open>\<open>str.lower()\<close> on the letters A to Z. Python also lowers cased letters outside
  ASCII; the keyword and starter lists below are ASCII, and the texts are taken over the
  code points on which \<open>lower\<close> acts as written here.\<close>

definition lower_char :: "char \<Rightarrow> char" where
  "lower_char c =
     (let n = (of_char c :: nat) in if 65 \<le> n \<and> n \<le> 90 then char_of (n + 32) else c)"

definition py_lower :: "string \<Rightarrow> string" where
  "py_lower t = map lower_char t"

text \<open>\<open>needle in haystack\<close> for strings: a contiguous occurrence.\<close>

fun py_in :: "string \<Rightarrow> string \<Rightarrow> bool" where
  "py_in k [] = (k = [])"
| "py_in k (c # cs) = (prefix k (c # cs) \<or> py_in k cs)"

text \<open>\<open>text.split('.')[0]\<close>: the text before the first full stop.\<close>

definition first_sentence :: "string \<Rightarrow> string" where
  "first_sentence t = takeWhile (\<lambda>c. c \<noteq> CHR ''.'') t"

subsection \<open>Binary floating point\<close>

text \<open>Rounding to the nearest integer, ties to even: what \<open>round\<close>, \<open>timedelta\<close> and
  the \<open>.2f\<close> format do on the exact value.\<close>

definition round_half_even :: "real \<Rightarrow> int" where
  "round_half_even x =
     (let f = \<lfloor>x\<rfloor>; d = x - of_int f
      in if d < 1 / 2 then f else if d > 1 / 2 then f + 1 else if even f then f else f + 1)"

text \<open>A Python float is an IEEE 754 binary64 number: a mantissa of 53 bits and an
  exponent that does not go below \<open>-1022\<close>. The result of a float operation is the double
  nearest to the exact result, ties to the even mantissa. \<open>fl_exponent x\<close> is the
  exponent \<open>e\<close> with \<open>2\<^sup>e \<le> |x| < 2\<^sup>e\<^sup>+\<^sup>1\<close> (for \<open>x \<noteq> 0\<close>), \<open>fl_ulp x\<close> the spacing of the
  doubles around \<open>x\<close>, and \<open>fl x\<close> the nearest multiple of that spacing. A rounded value
  beyond \<open>max_double\<close>, the largest finite double, is an infinity in Python.\<close>

definition fl_exponent :: "real \<Rightarrow> int" where
  "fl_exponent x =
     (if 1 \<le> \<bar>x\<bar> then bitlen \<lfloor>\<bar>x\<bar>\<rfloor> - 1 else - bitlen (\<lceil>1 / \<bar>x\<bar>\<rceil> - 1))"

definition fl_ulp :: "real \<Rightarrow> real" where
  "fl_ulp x = 2 powi (max (fl_exponent x) (- 1022) - 52)"

definition fl :: "real \<Rightarrow> real" where
  "fl x = of_int (round_half_even (x / fl_ulp x)) * fl_ulp x"


section \<open>Hook detection and viral scoring (hook\_detector.py)\<close>

subsection \<open>Data\<close>

text \<open>A word and a segment as the ASR engine returns them (\<open>word\<close>, \<open>start\<close>, \<open>end\<close>;
  \<open>start\<close>, \<open>end\<close>, \<open>text\<close>, \<open>words\<close>).\<close>

record whisper_word =
  w_word :: string
  w_start :: real
  w_end :: real

record whisper_segment =
  ws_start :: real
  ws_end :: real
  ws_text :: string
  ws_words :: "whisper_word list"

record TranscriptSegment =
  seg_start_time :: real
  seg_end_time :: real
  seg_text :: string
  seg_confidence :: real
  original_segment :: "whisper_segment option"

record VideoClip =
  clip_start_time :: real
  clip_end_time :: real
  clip_duration :: real
  clip_transcript :: string
  viral_score :: real
  hook_keywords :: "string list"
  has_question :: bool
  emotion_score :: real
  length_bonus :: real
  clip_segments :: "TranscriptSegment list"

text \<open>What one call of the sentiment pipeline can do: raise (or return a reply on which
  the code raises inside its \<open>try\<close> block, such as a list whose first element is not a
  dictionary), or return a list of label/score dictionaries (each key may be missing), or
  return something that is not a non-empty list.\<close>

record sentiment_result =
  sr_label :: "string option"
  sr_score :: "real option"

datatype analyzer_out = Raises | Results "sentiment_result list" | Unexpected

record HookDetector =
  target_length :: real
  min_length :: real
  max_length :: real
  sentiment_analyzer :: "(string \<Rightarrow> analyzer_out) option"

definition HOOK_KEYWORDS :: "string list" where
  "HOOK_KEYWORDS =
    [''secret'', ''secrets'', ''hidden'', ''revealed'', ''expose'', ''exposed'', ''truth about'',
     ''nobody told you'', ''nobody tells you'', ''they don'' @ [CHR 0x27] @ ''t want you to know'',
     ''mistake'', ''mistakes'', ''wrong'', ''error'', ''problem'', ''issue'', ''fail'', ''failure'',
     ''biggest mistake'', ''common mistake'', ''avoid this'',
     ''crazy'', ''insane'', ''shocking'', ''unbelievable'', ''incredible'', ''amazing'',
     ''you won'' @ [CHR 0x27] @ ''t believe'', ''mind-blowing'', ''jaw-dropping'',
     ''this is why'', ''here'' @ [CHR 0x27] @ ''s why'', ''the reason'', ''because'', ''how to'',
     ''watch this'', ''look at this'', ''check this out'', ''pay attention'',
     ''right now'', ''immediately'', ''before it'' @ [CHR 0x27] @ ''s too late'', ''limited time'',
     ''don'' @ [CHR 0x27] @ ''t miss'', ''last chance'', ''urgent'',
     ''love'', ''hate'', ''angry'', ''frustrated'', ''excited'', ''scared'', ''worried'']"

definition QUESTION_STARTERS :: "string list" where
  "QUESTION_STARTERS =
    [''what'', ''why'', ''how'', ''when'', ''where'', ''who'', ''which'', ''whose'',
     ''can you'', ''do you'', ''have you'', ''are you'', ''will you'', ''would you'',
     ''is it'', ''are they'', ''did you know'']"

subsection \<open>Scoring\<close>

definition detect_hook_keywords :: "string \<Rightarrow> string list" where
  "detect_hook_keywords text =
     (let text_lower = py_lower text in filter (\<lambda>keyword. py_in keyword text_lower) HOOK_KEYWORDS)"

definition detect_question_hook :: "string \<Rightarrow> bool" where
  "detect_question_hook text =
     (let text_lower = py_strip (py_lower text) in
      if list_ex (\<lambda>starter. prefix starter text_lower) QUESTION_STARTERS then True
      else if CHR ''?'' \<in> set (first_sentence text) then True
      else False)"

definition analyze_emotion :: "HookDetector \<Rightarrow> string \<Rightarrow> real" where
  "analyze_emotion det text =
     (case sentiment_analyzer det of
        None \<Rightarrow> 0
      | Some analyzer \<Rightarrow>
          (let t = py_strip text in
           if t = [] then 0
           else (case analyzer t of
                   Raises \<Rightarrow> 0
                 | Unexpected \<Rightarrow> 1 / 2
                 | Results [] \<Rightarrow> 1 / 2
                 | Results (result # _) \<Rightarrow>
                     (let label = py_lower (case sr_label result of None \<Rightarrow> [] | Some l \<Rightarrow> l);
                          score = (case sr_score result of None \<Rightarrow> 0 | Some s \<Rightarrow> s)
                      in if label \<in> {''positive'', ''pos''} then min 1 (score * (12 / 10))
                         else if label \<in> {''negative'', ''neg''} then min 1 (score * (13 / 10))
                         else if label \<in> {''neutral''} then score * (5 / 10)
                         else score))))"

definition calculate_length_bonus :: "HookDetector \<Rightarrow> real \<Rightarrow> real" where
  "calculate_length_bonus det duration =
     (let target = target_length det;
          tolerance = target * (1 / 10)
      in if \<bar>duration - target\<bar> \<le> tolerance then 1 else 0)"

text \<open>\<open>_calculate_viral_score\<close> writes the four analysis fields into the clip and returns
  the score; the model returns both.\<close>

definition calculate_viral_score :: "HookDetector \<Rightarrow> VideoClip \<Rightarrow> real \<times> VideoClip" where
  "calculate_viral_score det clip =
     (let kws = detect_hook_keywords (clip_transcript clip);
          score1 = 0 + real (length kws) * 2;
          q = detect_question_hook (clip_transcript clip);
          score2 = (if q then score1 + 2 else score1);
          e = analyze_emotion det (clip_transcript clip);
          score3 = score2 + e * 2;
          b = calculate_length_bonus det (clip_duration clip);
          score4 = score3 + b
      in (score4, clip\<lparr>hook_keywords := kws, has_question := q, emotion_score := e,
                          length_bonus := b\<rparr>))"

subsection \<open>Segmentation into candidate windows\<close>

definition is_sentence_boundary :: "string \<Rightarrow> bool" where
  "is_sentence_boundary text =
     (let t = py_strip text in
      (suffix ''.'' t \<or> suffix ''!'' t \<or> suffix ''?'' t \<or> suffix ''...'' t)
      \<or> length (py_split t) > 10)"

text \<open>The local variables of the inner \<open>while j < len(segments)\<close> loop of
  \<open>segment_transcript\<close>.\<close>

record clip_builder =
  cb_segments :: "TranscriptSegment list"
  cb_text :: string
  best_clip_end :: "real option"
  best_clip_segments :: "TranscriptSegment list"
  best_clip_text :: string

definition new_builder :: clip_builder where
  "new_builder = \<lparr>cb_segments = [], cb_text = [], best_clip_end = None,
                   best_clip_segments = [], best_clip_text = []\<rparr>"

text \<open>The inner loop over \<open>segments[j]\<close>, \<open>j = i, i+1, ...\<close>: the list argument is
  \<open>segments[i:]\<close>. Both \<open>break\<close>s return the state as it is. Every \<open>-\<close> of the source
  is a float subtraction.\<close>

fun build_clip :: "HookDetector \<Rightarrow> real \<Rightarrow> TranscriptSegment list \<Rightarrow> clip_builder \<Rightarrow> clip_builder"
  where
  "build_clip det clip_start [] st = st"
| "build_clip det clip_start (segment # rest) st =
     (let potential_duration = fl (seg_end_time segment - clip_start) in
      if potential_duration > max_length det then st
      else
        (let st1 = st\<lparr>cb_segments := cb_segments st @ [segment],
                       cb_text := cb_text st @ '' '' @ seg_text segment\<rparr> in
         if potential_duration \<ge> min_length det \<and> is_sentence_boundary (seg_text segment)
         then
           (let st2 =
                (if (case best_clip_end st1 of
                       None \<Rightarrow> True
                     | Some e \<Rightarrow> \<bar>fl (potential_duration - target_length det)\<bar>
                                  < \<bar>fl (fl (e - clip_start) - target_length det)\<bar>)
                 then st1\<lparr>best_clip_end := Some (seg_end_time segment),
                          best_clip_segments := cb_segments st1,
                          best_clip_text := py_strip (cb_text st1)\<rparr>
                 else st1)
            in if potential_duration \<ge> target_length det then st2
               else build_clip det clip_start rest st2)
         else build_clip det clip_start rest st1))"

definition make_clip :: "real \<Rightarrow> real \<Rightarrow> string \<Rightarrow> TranscriptSegment list \<Rightarrow> VideoClip" where
  "make_clip clip_start clip_end text segs =
     \<lparr>clip_start_time = clip_start, clip_end_time = clip_end,
      clip_duration = fl (clip_end - clip_start), clip_transcript = text, viral_score = 0,
      hook_keywords = [], has_question = False, emotion_score = 0, length_bonus = 0,
      clip_segments = segs\<rparr>"

text \<open>The outer \<open>while i < len(segments)\<close> loop; \<open>clips\<close> is the list built so far.\<close>

function segment_loop ::
  "HookDetector \<Rightarrow> TranscriptSegment list \<Rightarrow> nat \<Rightarrow> VideoClip list \<Rightarrow> VideoClip list" where
  "segment_loop det segments i clips =
     (if i < length segments then
        (let clip_start = seg_start_time (segments ! i);
             st = build_clip det clip_start (drop i segments) new_builder
         in (case best_clip_end st of
               Some e \<Rightarrow>
                 segment_loop det segments (i + max 1 (length (best_clip_segments st) div 2))
                   (clips @ [make_clip clip_start e (best_clip_text st) (best_clip_segments st)])
             | None \<Rightarrow> segment_loop det segments (i + 1) clips))
      else clips)"
  by pat_completeness auto
termination
  by (relation "measure (\<lambda>(det, segments, i, clips). length segments - i)") auto

declare segment_loop.simps [simp del]

text \<open>\<open>sorted(xs, key=k)\<close> is a stable sort, as \<open>sort_key\<close> is.\<close>

definition segment_transcript :: "HookDetector \<Rightarrow> TranscriptSegment list \<Rightarrow> VideoClip list" where
  "segment_transcript det transcript_segments =
     segment_loop det (sort_key seg_start_time transcript_segments) 0 []"

subsection \<open>Ranking\<close>

text \<open>\<open>sorted(xs, key=k, reverse=True)\<close>: Python reverses the list, sorts it stably in
  ascending order and reverses the result, so that equal keys keep their input order.\<close>

definition py_sorted_reverse :: "('a \<Rightarrow> real) \<Rightarrow> 'a list \<Rightarrow> 'a list" where
  "py_sorted_reverse k xs = rev (sort_key k (rev xs))"

definition score_clips :: "HookDetector \<Rightarrow> VideoClip list \<Rightarrow> VideoClip list" where
  "score_clips det clips =
     py_sorted_reverse viral_score
       (map (\<lambda>clip. (case calculate_viral_score det clip of
                        (score, clip') \<Rightarrow> clip'\<lparr>viral_score := score\<rparr>)) clips)"

subsection \<open>Properties of the sentiment adapter and example inputs\<close>




subsection \<open>Invariants and orderings used in the proofs\<close>

text \<open>The best boundary recorded so far, if any, gives a duration inside the configured
  range.\<close>

definition best_in_range :: "HookDetector \<Rightarrow> real \<Rightarrow> clip_builder \<Rightarrow> bool" where
  "best_in_range det clip_start st =
     (case best_clip_end st of None \<Rightarrow> True
      | Some e \<Rightarrow> min_length det \<le> fl (e - clip_start) \<and> fl (e - clip_start) \<le> max_length det)"

definition duration_in_range :: "HookDetector \<Rightarrow> VideoClip \<Rightarrow> bool" where
  "duration_in_range det c = (min_length det \<le> clip_duration c \<and> clip_duration c \<le> max_length det)"

text \<open>The ranked order: score descending, and among equal scores the earlier start
  first.\<close>

definition ranked_before :: "VideoClip \<Rightarrow> VideoClip \<Rightarrow> bool" where
  "ranked_before a b =
     (viral_score a \<ge> viral_score b
      \<and> (viral_score a = viral_score b \<longrightarrow> clip_start_time a \<le> clip_start_time b))"

definition asc_rel :: "('a \<Rightarrow> real) \<Rightarrow> ('a \<Rightarrow> real) \<Rightarrow> 'a \<Rightarrow> 'a \<Rightarrow> bool" where
  "asc_rel k s a b = (k a < k b \<or> (k a = k b \<and> s b \<le> s a))"

definition starts_bounded :: "TranscriptSegment list \<Rightarrow> nat \<Rightarrow> VideoClip list \<Rightarrow> bool" where
  "starts_bounded segments i clips =
     (\<forall>c \<in> set clips. \<forall>k. i \<le> k \<and> k < length segments \<longrightarrow>
         clip_start_time c \<le> seg_start_time (segments ! k))"

text \<open>A short transcript with the lengths 20/30/40 of the first end-to-end scenario.\<close>

definition scenario_detector :: HookDetector where
  "scenario_detector =
     \<lparr>target_length = 30, min_length = 20, max_length = 40, sentiment_analyzer = None\<rparr>"

definition scenario_transcript :: "TranscriptSegment list" where
  "scenario_transcript =
     [\<lparr>seg_start_time = 0, seg_end_time = 10, seg_text = ''Big secret.'',
        seg_confidence = 0, original_segment = None\<rparr>,
      \<lparr>seg_start_time = 10, seg_end_time = 22, seg_text = ''Why?'',
        seg_confidence = 0, original_segment = None\<rparr>,
      \<lparr>seg_start_time = 22, seg_end_time = 40, seg_text = ''Watch this.'',
        seg_confidence = 0, original_segment = None\<rparr>,
      \<lparr>seg_start_time = 40, seg_end_time = 65, seg_text = ''Secret.'',
        seg_confidence = 0, original_segment = None\<rparr>]"

text \<open>Two candidates with the same text and length, the later one first.\<close>

definition late_clip :: VideoClip where
  "late_clip = make_clip 50 75 ''Secret.'' []"

definition early_clip :: VideoClip where
  "early_clip = make_clip 0 25 ''Secret.'' []"

section \<open>Clip selection and rendering (complete\_viral\_clip\_generator.py)\<close>

subsection \<open>Python numbers and slices\<close>

datatype py_error =
  ZeroDivisionError | OverflowError | ValueError | NameError | FileNotFoundError | OtherError

text \<open>\<open>int(x)\<close> on a float truncates toward zero.\<close>

definition py_int :: "real \<Rightarrow> int" where
  "py_int x = (if 0 \<le> x then \<lfloor>x\<rfloor> else \<lceil>x\<rceil>)"



subsection \<open>The clip record handed to the renderer\<close>








subsection \<open>Top-N selection\<close>








subsection \<open>Caption timing (opus\_processor.py and \<open>_process_complete_clip\<close>)\<close>




















section \<open>The job control plane (app.py, queue\_manager.py, processing.py)\<close>

subsection \<open>Job submission\<close>

text \<open>The values that travel in the keyword arguments of a job: \<open>None\<close>, an integer, a
  string, or the parsed JSON of the template (kept as its text).\<close>

datatype py_value = VNone | VInt int | VStr string | VJson string

text \<open>\<open>int(s)\<close> on a string of decimal digits with an optional sign, surrounded by
  optional whitespace; \<open>None\<close> stands for the \<open>ValueError\<close>. Python also reads digit
  groups separated by underscores and digits outside ASCII; the model takes such texts
  as rejected.\<close>

definition digit_value :: "char \<Rightarrow> nat option" where
  "digit_value c =
     (let n = (of_char c :: nat) in if 48 \<le> n \<and> n \<le> 57 then Some (n - 48) else None)"

fun digits_value :: "nat \<Rightarrow> string \<Rightarrow> nat option" where
  "digits_value acc [] = Some acc"
| "digits_value acc (c # cs) =
     (case digit_value c of None \<Rightarrow> None | Some d \<Rightarrow> digits_value (10 * acc + d) cs)"

definition int_of_string :: "string \<Rightarrow> int option" where
  "int_of_string s =
     (case py_strip s of
        [] \<Rightarrow> None
      | c # cs \<Rightarrow>
          (if c = CHR ''-'' then (if cs = [] then None else map_option (\<lambda>n. - int n) (digits_value 0 cs))
           else if c = CHR ''+'' then (if cs = [] then None else map_option int (digits_value 0 cs))
           else map_option int (digits_value 0 (c # cs))))"

text \<open>A multipart form: \<open>request.form.get\<close> is the lookup. A value that is missing or
  empty is falsy. \<open>json_ok\<close> tells whether \<open>json.loads\<close> accepts the template text.\<close>

type_synonym form = "string \<rightharpoonup> string"

definition truthy :: "string option \<Rightarrow> bool" where
  "truthy v = (case v of None \<Rightarrow> False | Some s \<Rightarrow> s \<noteq> [])"

definition str_or_none :: "string option \<Rightarrow> py_value" where
  "str_or_none v = (case v of None \<Rightarrow> VNone | Some s \<Rightarrow> VStr s)"

record job =
  job_id :: "string option"
  job_args :: "py_value list"

datatype response = Ok200 job | BadRequest400 string | ServerError500

text \<open>\<open>enqueue_processing_job\<close>: \<open>job_id\<close> is popped from the keyword arguments, and
  the job is enqueued with six positional arguments read from them.\<close>

definition kw_get :: "(string \<rightharpoonup> py_value) \<Rightarrow> string \<Rightarrow> py_value" where
  "kw_get kwargs k = (case kwargs k of None \<Rightarrow> VNone | Some v \<Rightarrow> v)"

definition enqueue_processing_job :: "(string \<rightharpoonup> py_value) \<Rightarrow> job" where
  "enqueue_processing_job kwargs =
     \<lparr>job_id = (case kwargs ''job_id'' of Some (VStr s) \<Rightarrow> Some s | _ \<Rightarrow> None),
      job_args =
        [kw_get kwargs ''youtube_url'',
         kw_get kwargs ''opus_template'',
         kw_get kwargs ''clip_duration'',
         kw_get kwargs ''exports_dir'',
         kw_get kwargs ''original_filename'',
         (case kwargs ''layout'' of None \<Rightarrow> VStr ''fit'' | Some v \<Rightarrow> v)]\<rparr>"

text \<open>An optional integer field of the form: absent or empty gives the default, a text
  that \<open>int\<close> rejects gives the 400 response.\<close>

definition int_field :: "string option \<Rightarrow> py_value \<Rightarrow> py_value option" where
  "int_field v dflt =
     (if truthy v then map_option VInt (int_of_string (the v)) else Some dflt)"

definition create_job_endpoint :: "(string \<Rightarrow> bool) \<Rightarrow> string \<Rightarrow> form \<Rightarrow> response" where
  "create_job_endpoint json_ok EXPORTS_DIR frm =
     (let jid = frm ''job_id'';
          youtube_url = frm ''youtube_url'';
          video_url = frm ''video_url'';
          opus_template_str = frm ''opus_template'';
          layout = (case frm ''layout'' of None \<Rightarrow> ''fit'' | Some l \<Rightarrow> l)
      in if \<not> truthy jid then BadRequest400 ''job_id is required''
         else if \<not> truthy youtube_url \<and> \<not> truthy video_url
           then BadRequest400 ''youtube_url or video_url is required''
         else if \<not> truthy opus_template_str then BadRequest400 ''opus_template is required''
         else if \<not> json_ok (the opus_template_str) then BadRequest400 ''Invalid template or duration''
         else
           (case (int_field (frm ''clip_duration'') (VInt 30),
                  int_field (frm ''timeframe_start'') VNone,
                  int_field (frm ''timeframe_end'') VNone,
                  int_field (frm ''min_clip_length'') (VInt 30),
                  int_field (frm ''max_clip_length'') (VInt 90),
                  int_field (frm ''target_clip_length'') (VInt 60)) of
              (Some clip_dur, Some tf_start, Some tf_end,
               Some min_clip, Some max_clip, Some target_clip) \<Rightarrow>
                Ok200 (enqueue_processing_job
                  [''job_id'' \<mapsto> str_or_none jid,
                   ''youtube_url'' \<mapsto> (if truthy youtube_url then str_or_none youtube_url
                                          else str_or_none video_url),
                   ''opus_template'' \<mapsto> VJson (the opus_template_str),
                   ''clip_duration'' \<mapsto> clip_dur,
                   ''exports_dir'' \<mapsto> VStr EXPORTS_DIR,
                   ''original_filename'' \<mapsto> str_or_none (frm ''original_filename''),
                   ''layout'' \<mapsto> VStr layout,
                   ''timeframe_start'' \<mapsto> tf_start,
                   ''timeframe_end'' \<mapsto> tf_end,
                   ''min_clip_length'' \<mapsto> min_clip,
                   ''max_clip_length'' \<mapsto> max_clip,
                   ''target_clip_length'' \<mapsto> target_clip])
            | _ \<Rightarrow> BadRequest400 ''Invalid template or duration''))"

text \<open>The parameters of \<open>run_opus_transcription\<close> as the worker's call
  \<open>func(*args)\<close> binds them: four are required, the others take their defaults when
  the argument list is shorter.\<close>

record run_params =
  p_youtube_url :: py_value
  p_opus_template :: py_value
  p_clip_duration :: py_value
  p_exports_dir :: py_value
  p_original_filename :: py_value
  p_layout_mode :: py_value
  p_timeframe_start :: py_value
  p_timeframe_end :: py_value
  p_min_clip_length :: py_value
  p_max_clip_length :: py_value
  p_target_clip_length :: py_value

definition arg_or :: "py_value list \<Rightarrow> nat \<Rightarrow> py_value \<Rightarrow> py_value" where
  "arg_or args i dflt = (if i < length args then args ! i else dflt)"

definition bind_run_opus_transcription :: "py_value list \<Rightarrow> run_params option" where
  "bind_run_opus_transcription args =
     (if length args < 4 \<or> 11 < length args then None
      else Some
        \<lparr>p_youtube_url = args ! 0, p_opus_template = args ! 1, p_clip_duration = args ! 2,
         p_exports_dir = args ! 3,
         p_original_filename = arg_or args 4 VNone,
         p_layout_mode = arg_or args 5 (VStr ''auto''),
         p_timeframe_start = arg_or args 6 VNone,
         p_timeframe_end = arg_or args 7 VNone,
         p_min_clip_length = arg_or args 8 (VInt 30),
         p_max_clip_length = arg_or args 9 (VInt 90),
         p_target_clip_length = arg_or args 10 (VInt 60)\<rparr>)"

text \<open>What the processing function receives for a submitted form.\<close>

definition received_params :: "(string \<Rightarrow> bool) \<Rightarrow> string \<Rightarrow> form \<Rightarrow> run_params option" where
  "received_params json_ok EXPORTS_DIR frm =
     (case create_job_endpoint json_ok EXPORTS_DIR frm of
        Ok200 j \<Rightarrow> bind_run_opus_transcription (job_args j)
      | _ \<Rightarrow> None)"

definition submitted_form :: form where
  "submitted_form =
     [''job_id'' \<mapsto> ''job-1'',
      ''youtube_url'' \<mapsto> ''https://youtu.be/abcdefghijk'',
      ''opus_template'' \<mapsto> ''{}'',
      ''layout'' \<mapsto> ''fill'',
      ''timeframe_start'' \<mapsto> ''10'',
      ''timeframe_end'' \<mapsto> ''200'',
      ''min_clip_length'' \<mapsto> ''15'',
      ''max_clip_length'' \<mapsto> ''45'',
      ''target_clip_length'' \<mapsto> ''20'']"

subsection \<open>URL validation and download\<close>

text \<open>The regular expressions of \<open>validate_youtube_url\<close> use literals, optional
  groups, sequences and alternatives, followed by one capturing group of eleven
  characters of the class \<open>[a-zA-Z0-9_-]\<close>. \<open>rmatch\<close> lists the remainders of the
  input after a match of the prefix at its start, in the order in which the backtracking
  matcher tries them.\<close>

datatype regex = Lit string | Opt regex | Cat regex regex | Alt regex regex

fun rmatch :: "regex \<Rightarrow> string \<Rightarrow> string list" where
  "rmatch (Lit s) u = (if prefix s u then [drop (length s) u] else [])"
| "rmatch (Opt r) u = rmatch r u @ [u]"
| "rmatch (Cat a b) u = concat (map (rmatch b) (rmatch a u))"
| "rmatch (Alt a b) u = rmatch a u @ rmatch b u"

definition id_char :: "char \<Rightarrow> bool" where
  "id_char c =
     (let n = (of_char c :: nat)
      in (97 \<le> n \<and> n \<le> 122) \<or> (65 \<le> n \<and> n \<le> 90) \<or> (48 \<le> n \<and> n \<le> 57)
         \<or> c = CHR ''_'' \<or> c = CHR ''-'')"

definition capture_id :: "string \<Rightarrow> string option" where
  "capture_id u =
     (if 11 \<le> length u \<and> list_all id_char (take 11 u) then Some (take 11 u) else None)"

text \<open>A match of the prefix followed by the group, at the start of the input: the group
  of the first alternative that succeeds.\<close>

definition match_here :: "regex \<Rightarrow> string \<Rightarrow> string option" where
  "match_here r u =
     (case List.map_filter capture_id (rmatch r u) of [] \<Rightarrow> None | v # _ \<Rightarrow> Some v)"

text \<open>\<open>re.search(pattern, url).group(1)\<close>: the leftmost match.\<close>

fun re_search :: "regex \<Rightarrow> string \<Rightarrow> string option" where
  "re_search r [] = match_here r []"
| "re_search r (c # cs) =
     (case match_here r (c # cs) of Some v \<Rightarrow> Some v | None \<Rightarrow> re_search r cs)"

definition url_prefix :: regex where
  "url_prefix = Cat (Opt (Cat (Lit ''http'') (Cat (Opt (Lit ''s'')) (Lit ''://''))))
                    (Opt (Lit ''www.''))"

definition youtube_patterns :: "regex list" where
  "youtube_patterns =
     [Cat url_prefix (Lit ''youtube.com/watch?v=''),
      Cat url_prefix (Lit ''youtu.be/''),
      Cat url_prefix (Lit ''youtube.com/embed/''),
      Cat url_prefix (Lit ''youtube.com/v/'')]"

text \<open>The \<open>for pattern in youtube_patterns\<close> loop: the group of the first pattern that
  matches.\<close>

fun first_match :: "regex list \<Rightarrow> string \<Rightarrow> string option" where
  "first_match [] url = None"
| "first_match (p # ps) url =
     (case re_search p url of Some v \<Rightarrow> Some v | None \<Rightarrow> first_match ps url)"

definition validate_youtube_url :: "string \<Rightarrow> bool \<times> string" where
  "validate_youtube_url url =
     (if url = [] then (False, ''URL must be a non-empty string'')
      else
        (case first_match youtube_patterns url of
           None \<Rightarrow> (False, ''Invalid YouTube URL format.'')
         | Some video_id \<Rightarrow>
             if video_id = [] then (False, ''Invalid YouTube URL format.'')
             else if length video_id \<noteq> 11 then (False, ''Invalid video ID length'')
             else if prefix ''--'' video_id then (False, ''Malformed video ID'')
             else if \<not> list_all id_char video_id then (False, ''Invalid video ID characters'')
             else (True, ''Valid YouTube URL'')))"

text \<open>The worker's view of the machine: the files on disk, the child processes it has
  run, and the progress it has reported.\<close>

record world =
  w_files :: "string set"
  w_subprocess :: "string list"
  w_progress :: "(int \<times> string) list"

text \<open>What the downloader run can do: fail with a non-zero exit (\<open>CalledProcessError\<close>),
  time out, or finish having written the listed files.\<close>

datatype download_outcome = ExitNonZero | TimedOut | Finished "string list"

text \<open>The collaborators of one job: the directory that \<open>mkdtemp\<close> returns, the
  downloader, the rest of the \<open>try\<close> block of \<open>run_opus_transcription\<close> after the
  download (audio extraction up to the final clip list), and the paths that
  \<open>rmtree(..., ignore_errors=True)\<close> cannot delete.\<close>

record worker_env =
  we_temp_dir :: string
  we_yt_dlp :: "string \<Rightarrow> download_outcome"
  we_after_download :: "string \<Rightarrow> world \<Rightarrow> (py_error + string) \<times> world"
  we_undeletable :: "string \<Rightarrow> bool"

definition download_youtube_video ::
  "worker_env \<Rightarrow> string \<Rightarrow> string \<Rightarrow> world \<Rightarrow> (py_error + string) \<times> world" where
  "download_youtube_video env url temp_dir w =
     (case validate_youtube_url url of
        (False, validation_error) \<Rightarrow> (Inl ValueError, w)
      | (True, _) \<Rightarrow>
          (let w1 = w\<lparr>w_subprocess := w_subprocess w @ [''yt-dlp'']\<rparr> in
           case we_yt_dlp env url of
             ExitNonZero \<Rightarrow> (Inl OtherError, w1)
           | TimedOut \<Rightarrow> (Inl OtherError, w1)
           | Finished written \<Rightarrow>
               (let w2 = w1\<lparr>w_files := w_files w1 \<union> set written\<rparr>;
                    potential_files =
                      filter (\<lambda>f. prefix (temp_dir @ ''/downloaded_video_'') f) written
                in case potential_files of
                     [] \<Rightarrow> (Inl FileNotFoundError, w2)
                   | f # _ \<Rightarrow> (Inr f, w2))))"

definition update_job_progress :: "int \<Rightarrow> string \<Rightarrow> world \<Rightarrow> world" where
  "update_job_progress percentage stage w = w\<lparr>w_progress := w_progress w @ [(percentage, stage)]\<rparr>"

definition rmtree :: "worker_env \<Rightarrow> string \<Rightarrow> world \<Rightarrow> world" where
  "rmtree env dir w =
     w\<lparr>w_files := {f \<in> w_files w. \<not> prefix (dir @ ''/'') f \<or> we_undeletable env f}\<rparr>"

text \<open>\<open>run_opus_transcription\<close>: the \<open>try\<close> block, the \<open>except\<close> clause that records the
  failure and raises again, and the \<open>finally\<close> clause that removes the temporary
  directory.\<close>

definition run_opus_transcription ::
  "worker_env \<Rightarrow> string \<Rightarrow> world \<Rightarrow> (py_error + string) \<times> world" where
  "run_opus_transcription env youtube_url w =
     (let temp_dir = we_temp_dir env;
          w1 = update_job_progress 5 ''Downloading'' w;
          (r, w2) =
            (case download_youtube_video env youtube_url temp_dir w1 of
               (Inl e, w') \<Rightarrow> (Inl e, w')
             | (Inr original_file_path, w') \<Rightarrow>
                 we_after_download env original_file_path
                   (update_job_progress 15 ''Download Complete'' w'));
          w3 = (case r of Inl e \<Rightarrow> update_job_progress 100 ''Failed'' w2 | Inr _ \<Rightarrow> w2)
      in (r, rmtree env temp_dir w3))"

definition no_pattern_matches :: "string \<Rightarrow> bool" where
  "no_pattern_matches url = list_all (\<lambda>pattern. re_search pattern url = None) youtube_patterns"

definition example_env :: worker_env where
  "example_env =
     \<lparr>we_temp_dir = ''/tmp/tmpjob'',
      we_yt_dlp = (\<lambda>url. Finished [''/tmp/tmpjob/downloaded_video_1.mp4'']),
      we_after_download = (\<lambda>path w. (Inr ''done'', w)),
      we_undeletable = (\<lambda>f. False)\<rparr>"

definition empty_world :: world where
  "empty_world = \<lparr>w_files = {}, w_subprocess = [], w_progress = []\<rparr>"

text \<open>The words of the claim about the accepted forms: somewhere in the URL one of the
  four markers is followed by eleven characters of the class of video ids.\<close>

definition mentions_video_id :: "string \<Rightarrow> bool" where
  "mentions_video_id url =
     list_ex (\<lambda>u. list_ex (\<lambda>marker. prefix marker u \<and> capture_id (drop (length marker) u) \<noteq> None)
                     [''watch?v='', ''youtu.be/'', ''embed/'', ''/v/''])
       (suffixes url)"

section \<open>Temporary files of the renderer (\<open>_process_complete_clip\<close>)\<close>







section \<open>Face detection (face\_detection.py)\<close>

text \<open>A detection of the face detector: the relative bounding box and the score. A frame
  with its height and width and the detections that the detector returns for it. A video:
  whether \<open>VideoCapture\<close> opens it, and its frames in order.\<close>

record detection =
  bb_xmin :: real
  bb_ymin :: real
  bb_width :: real
  bb_height :: real
  det_score :: real

record frame =
  fr_height :: int
  fr_width :: int
  fr_detections :: "detection list"

record video =
  v_opened :: bool
  v_frames :: "frame list"

record face =
  face_center :: "int \<times> int"
  face_size :: real
  face_confidence :: real
  face_prominence :: real

definition frame_faces :: "frame \<Rightarrow> face list" where
  "frame_faces fr =
     map (\<lambda>d. \<lparr>face_center =
                   (py_int ((bb_xmin d + bb_width d / 2) * of_int (fr_width fr)),
                    py_int ((bb_ymin d + bb_height d / 2) * of_int (fr_height fr))),
                face_size = bb_width d * bb_height d,
                face_confidence = det_score d,
                face_prominence = bb_width d * bb_height d * det_score d\<rparr>)
       (fr_detections fr)"

text \<open>The sampling loop: at most the first 300 frames are read and every thirtieth of
  them is given to the detector.\<close>

definition sampled_frames :: "video \<Rightarrow> frame list" where
  "sampled_frames v =
     map snd (filter (\<lambda>(frame_count, fr). frame_count mod 30 = 0)
                (enumerate 0 (take 300 (v_frames v))))"

text \<open>\<open>max(xs, key=k)\<close> returns the first element with the largest key.\<close>

fun max_by :: "('a \<Rightarrow> real) \<Rightarrow> 'a \<Rightarrow> 'a list \<Rightarrow> 'a" where
  "max_by k best [] = best"
| "max_by k best (x # xs) = max_by k (if k x > k best then x else best) xs"

definition py_mean :: "int list \<Rightarrow> real" where
  "py_mean xs = of_int (sum_list xs) / real (length xs)"

definition detect_face_center :: "video \<Rightarrow> bool \<Rightarrow> real option \<Rightarrow> py_error + (int \<times> int)" where
  "detect_face_center v prefer_left_side segment_time =
     (if \<not> v_opened v then Inl ValueError
      else
        (let face_centers = concat (map frame_faces (sampled_frames v)) in
         if face_centers = [] then
           (case v_frames v of
              [] \<Rightarrow> Inl ValueError
            | fr # _ \<Rightarrow> Inr (fr_width fr div 2, fr_height fr div 2))
         else
           (let frame_width = (case v_frames v of [] \<Rightarrow> 1080 | fr # _ \<Rightarrow> fr_width fr);
                left_faces = filter (\<lambda>f. of_int (fst (face_center f)) < of_int frame_width * (5 / 10 :: real)) face_centers;
                right_faces = filter (\<lambda>f. of_int (fst (face_center f)) \<ge> of_int frame_width * (5 / 10 :: real)) face_centers;
                by_preference =
                  (if prefer_left_side \<and> left_faces \<noteq> [] then left_faces
                   else if \<not> prefer_left_side \<and> right_faces \<noteq> [] then right_faces
                   else face_centers);
                target_faces =
                  (case segment_time of
                     None \<Rightarrow> by_preference
                   | Some t \<Rightarrow>
                       (let current_speaker = \<lfloor>t / 10\<rfloor> mod 2 in
                        if current_speaker = 0 \<and> left_faces \<noteq> [] then left_faces
                        else if current_speaker = 1 \<and> right_faces \<noteq> [] then right_faces
                        else by_preference));
                best_face = max_by face_prominence (hd target_faces) (tl target_faces);
                similar_faces =
                  filter (\<lambda>f. face_prominence f > face_prominence best_face * (5 / 10)) target_faces
            in if similar_faces = [] then Inl ValueError
               else Inr (py_int (py_mean (map (\<lambda>f. fst (face_center f)) similar_faces)),
                         py_int (py_mean (map (\<lambda>f. snd (face_center f)) similar_faces))))))"

definition no_face_detected :: "video \<Rightarrow> bool" where
  "no_face_detected v = list_all (\<lambda>fr. fr_detections fr = []) (sampled_frames v)"

definition unopened_video :: video where
  "unopened_video = \<lparr>v_opened = False, v_frames = []\<rparr>"

definition faceless_video :: video where
  "faceless_video =
     \<lparr>v_opened = True,
      v_frames = [\<lparr>fr_height = 1080, fr_width = 1920, fr_detections = []\<rparr>,
                  \<lparr>fr_height = 1080, fr_width = 1920, fr_detections = []\<rparr>]\<rparr>"

section \<open>Cleanup of Hindi transcripts (\<open>_clean_hindi_segment\<close>)\<close>














section \<open>Verified properties\<close>

subsection \<open>The hook score\<close>














subsection \<open>Candidate windows\<close>

lemma build_clip_best_in_range:
  "best_in_range det cs st \<Longrightarrow> best_in_range det cs (build_clip det cs segs st)"
proof (induction segs arbitrary: st)
  case Nil
  then show ?case by simp
next
  case (Cons segment rest)
  define pd where "pd = fl (seg_end_time segment - cs)"
  define st1 where "st1 = st\<lparr>cb_segments := cb_segments st @ [segment],
                       cb_text := cb_text st @ '' '' @ seg_text segment\<rparr>"
  define st2 where "st2 = (if (case best_clip_end st1 of
                       None \<Rightarrow> True
                     | Some e \<Rightarrow> \<bar>fl (pd - target_length det)\<bar>
                                  < \<bar>fl (fl (e - cs) - target_length det)\<bar>)
                 then st1\<lparr>best_clip_end := Some (seg_end_time segment),
                          best_clip_segments := cb_segments st1,
                          best_clip_text := py_strip (cb_text st1)\<rparr>
                 else st1)"
  have eq: "build_clip det cs (segment # rest) st =
      (if pd > max_length det then st
       else if pd \<ge> min_length det \<and> is_sentence_boundary (seg_text segment)
            then (if pd \<ge> target_length det then st2 else build_clip det cs rest st2)
            else build_clip det cs rest st1)"
    unfolding pd_def st1_def st2_def by (simp add: Let_def)
  have 1: "best_in_range det cs st1"
    using Cons.prems by (simp add: best_in_range_def st1_def)
  have 2: "best_in_range det cs st2" if "\<not> pd > max_length det" "pd \<ge> min_length det"
    using 1 that by (simp add: best_in_range_def st2_def pd_def)
  show ?case
    unfolding eq using Cons.prems Cons.IH[OF 1] Cons.IH[OF 2] 2 by simp
qed

lemma segment_loop_step:
  "i < length segments \<Longrightarrow>
   segment_loop det segments i clips =
     (case best_clip_end (build_clip det (seg_start_time (segments ! i)) (drop i segments) new_builder) of
        Some e \<Rightarrow>
          segment_loop det segments
            (i + max 1 (length (best_clip_segments
               (build_clip det (seg_start_time (segments ! i)) (drop i segments) new_builder)) div 2))
            (clips @ [make_clip (seg_start_time (segments ! i)) e
               (best_clip_text (build_clip det (seg_start_time (segments ! i)) (drop i segments) new_builder))
               (best_clip_segments (build_clip det (seg_start_time (segments ! i)) (drop i segments) new_builder))])
      | None \<Rightarrow> segment_loop det segments (i + 1) clips)"
  by (subst segment_loop.simps) (simp add: Let_def)

lemma segment_loop_done:
  "\<not> i < length segments \<Longrightarrow> segment_loop det segments i clips = clips"
  by (subst segment_loop.simps) simp

lemma segment_loop_durations:
  "\<forall>c \<in> set clips. duration_in_range det c \<Longrightarrow>
   \<forall>c \<in> set (segment_loop det segments i clips). duration_in_range det c"
proof (induction det segments i clips rule: segment_loop.induct)
  case (1 det segments i clips)
  show ?case
  proof (cases "i < length segments")
    case False
    then show ?thesis using "1.prems" by (simp add: segment_loop_done)
  next
    case True
    let ?cs = "seg_start_time (segments ! i)"
    let ?st = "build_clip det ?cs (drop i segments) new_builder"
    have inv: "best_in_range det ?cs ?st"
      by (rule build_clip_best_in_range) (simp add: best_in_range_def new_builder_def)
    show ?thesis
    proof (cases "best_clip_end ?st")
      case None
      have "\<forall>c \<in> set (segment_loop det segments (i + 1) clips). duration_in_range det c"
        using "1.IH"(1)[OF True refl refl None] "1.prems" by blast
      then show ?thesis unfolding segment_loop_step[OF True] None by simp
    next
      case (Some e)
      let ?c = "make_clip ?cs e (best_clip_text ?st) (best_clip_segments ?st)"
      have c: "duration_in_range det ?c"
        using inv Some by (simp add: best_in_range_def duration_in_range_def make_clip_def)
      have "\<forall>a \<in> set (clips @ [?c]). duration_in_range det a"
        using c "1.prems" by simp
      then have "\<forall>c \<in> set (segment_loop det segments
            (i + max 1 (length (best_clip_segments ?st) div 2)) (clips @ [?c])). duration_in_range det c"
        by (rule "1.IH"(2)[OF True refl refl Some])
      then show ?thesis unfolding segment_loop_step[OF True] Some by simp
    qed
  qed
qed

text \<open>
  Claim C4. Every candidate window that \<open>segment_transcript\<close> produces has a duration
  between the configured minimum and maximum length, for every list of transcript segments
  and every configuration.
\<close>

theorem candidate_durations_in_range:
  "\<forall>c \<in> set (segment_transcript det transcript_segments).
     min_length det \<le> clip_duration c \<and> clip_duration c \<le> max_length det"
  using segment_loop_durations[of "[]" det "sort_key seg_start_time transcript_segments" 0]
  by (simp add: segment_transcript_def duration_in_range_def)

lemma scenario_durations:
  "map clip_duration (segment_transcript scenario_detector scenario_transcript) = [22, 30, 25]"
  by code_simp

theorem candidate_durations_in_range_witness:
  "map clip_duration (segment_transcript scenario_detector scenario_transcript) = [22, 30, 25]
   \<and> list_all (\<lambda>c. min_length scenario_detector \<le> clip_duration c
                     \<and> clip_duration c \<le> max_length scenario_detector)
         (segment_transcript scenario_detector scenario_transcript)"
  using candidate_durations_in_range [of scenario_detector scenario_transcript]
    scenario_durations
  by (simp add: list_all_iff)

subsection \<open>Ranking\<close>

lemma asc_rel_le: "asc_rel k s a b \<Longrightarrow> k a \<le> k b"
  by (auto simp: asc_rel_def)

lemma sorted_wrt_insort_key_asc:
  "sorted_wrt (asc_rel k s) ys \<Longrightarrow> \<forall>y \<in> set ys. s y \<le> s x \<Longrightarrow>
   sorted_wrt (asc_rel k s) (insort_key k x ys)"
proof (induction ys)
  case Nil
  then show ?case by simp
next
  case (Cons y ys)
  show ?case
  proof (cases "k x \<le> k y")
    case True
    have "asc_rel k s x z" if "z \<in> set (y # ys)" for z
    proof -
      have "k y \<le> k z" using that Cons.prems(1) by (auto dest: asc_rel_le)
      then have "k x \<le> k z" using True by simp
      moreover have "s z \<le> s x" using that Cons.prems(2) by auto
      ultimately show ?thesis by (auto simp: asc_rel_def)
    qed
    then show ?thesis using True Cons.prems(1) by simp
  next
    case False
    then have "asc_rel k s y x" by (simp add: asc_rel_def)
    then show ?thesis using False Cons by (auto simp: set_insort_key)
  qed
qed

lemma sorted_wrt_sort_key_rev:
  "sorted (map s xs) \<Longrightarrow> sorted_wrt (asc_rel k s) (sort_key k (rev xs))"
proof (induction xs rule: rev_induct)
  case Nil
  then show ?case by simp
next
  case (snoc x xs)
  have a: "sorted (map s xs)" and b: "\<forall>y \<in> set xs. s y \<le> s x"
    using snoc.prems by (auto simp: sorted_append)
  have "sorted_wrt (asc_rel k s) (insort_key k x (sort_key k (rev xs)))"
    by (rule sorted_wrt_insort_key_asc) (use snoc.IH[OF a] b in auto)
  then show ?case by simp
qed

lemma py_sorted_reverse_ranked:
  fixes s :: "'a \<Rightarrow> real"
  assumes "sorted (map s xs)"
  shows "sorted_wrt (\<lambda>a b. k a \<ge> k b \<and> (k a = k b \<longrightarrow> s a \<le> s b)) (py_sorted_reverse k xs)"
proof -
  have "sorted_wrt (\<lambda>a b. asc_rel k s b a) (py_sorted_reverse k xs)"
    unfolding py_sorted_reverse_def sorted_wrt_rev
    using sorted_wrt_sort_key_rev[OF assms] .
  then show ?thesis
    by (rule sorted_wrt_mono_rel[rotated]) (auto simp: asc_rel_def)
qed

lemma segment_loop_sorted_starts:
  "sorted (map seg_start_time segments) \<Longrightarrow> sorted (map clip_start_time clips) \<Longrightarrow>
   starts_bounded segments i clips \<Longrightarrow>
   sorted (map clip_start_time (segment_loop det segments i clips))"
proof (induction det segments i clips rule: segment_loop.induct)
  case (1 det segments i clips)
  show ?case
  proof (cases "i < length segments")
    case False
    then show ?thesis using "1.prems" by (simp add: segment_loop_done)
  next
    case True
    let ?cs = "seg_start_time (segments ! i)"
    let ?st = "build_clip det ?cs (drop i segments) new_builder"
    show ?thesis
    proof (cases "best_clip_end ?st")
      case None
      have "starts_bounded segments (i + 1) clips"
        using "1.prems"(3) by (auto simp: starts_bounded_def)
      then have "sorted (map clip_start_time (segment_loop det segments (i + 1) clips))"
        using "1.IH"(1)[OF True refl refl None] "1.prems" by blast
      then show ?thesis unfolding segment_loop_step[OF True] None by simp
    next
      case (Some e)
      let ?c = "make_clip ?cs e (best_clip_text ?st) (best_clip_segments ?st)"
      let ?i' = "i + max 1 (length (best_clip_segments ?st) div 2)"
      have cs: "clip_start_time ?c = ?cs" by (simp add: make_clip_def)
      have s1: "sorted (map clip_start_time (clips @ [?c]))"
        using "1.prems"(2,3) True by (auto simp: sorted_append starts_bounded_def cs)
      have s2: "starts_bounded segments ?i' (clips @ [?c])"
        unfolding starts_bounded_def
      proof (intro ballI allI impI)
        fix c k assume c: "c \<in> set (clips @ [?c])" and k: "?i' \<le> k \<and> k < length segments"
        then have ik: "i \<le> k" "k < length segments" by auto
        show "clip_start_time c \<le> seg_start_time (segments ! k)"
        proof (cases "c \<in> set clips")
          case True
          then show ?thesis using "1.prems"(3) ik by (auto simp: starts_bounded_def)
        next
          case False
          then have "c = ?c" using c by simp
          moreover have "seg_start_time (segments ! i) \<le> seg_start_time (segments ! k)"
            using "1.prems"(1) ik by (auto simp: sorted_iff_nth_mono)
          ultimately show ?thesis by (simp add: cs)
        qed
      qed
      have "sorted (map clip_start_time (segment_loop det segments ?i' (clips @ [?c])))"
        by (rule "1.IH"(2)[OF True refl refl Some "1.prems"(1) s1 s2])
      then show ?thesis unfolding segment_loop_step[OF True] Some by simp
    qed
  qed
qed

lemma segment_transcript_sorted_starts:
  "sorted (map clip_start_time (segment_transcript det transcript_segments))"
  unfolding segment_transcript_def
  by (rule segment_loop_sorted_starts) (simp_all add: starts_bounded_def)

lemma score_clips_start: 
  "map clip_start_time (map (\<lambda>clip. (case calculate_viral_score det clip of
                        (score, clip') \<Rightarrow> clip'\<lparr>viral_score := score\<rparr>)) clips) = map clip_start_time clips"
  by (simp add: calculate_viral_score_def Let_def)

lemma py_sorted_reverse_descending:
  fixes k :: "'a \<Rightarrow> real"
  shows "sorted_wrt (\<lambda>a b. k b \<le> k a) (py_sorted_reverse k xs)"
proof -
  have "sorted (map k (sort_key k (rev xs)))" by simp
  then have "sorted_wrt (\<lambda>a b. k a \<le> k b) (sort_key k (rev xs))"
    by (simp add: sorted_map)
  then show ?thesis
    unfolding py_sorted_reverse_def sorted_wrt_rev .
qed

lemma py_sorted_reverse_stable:
  "filter (\<lambda>y. k y = v) (py_sorted_reverse k xs) = filter (\<lambda>y. k y = v) xs"
  unfolding py_sorted_reverse_def
  by (simp add: rev_filter[symmetric] sort_key_stable)

lemma scored_viral_score:
  "viral_score (case calculate_viral_score det clip of (score, clip') \<Rightarrow> clip'\<lparr>viral_score := score\<rparr>)
     = fst (calculate_viral_score det clip)"
  by (simp add: calculate_viral_score_def Let_def)

text \<open>
  Claim C5. For every list of candidates, the list returned by \<open>score_clips\<close> holds the
  scored candidates sorted by score in descending order, and candidates with the same
  score keep the order in which they were given: the sort looks at the score alone and is
  stable. For a list given in order of start time, any two candidates with the same score
  therefore appear with the earlier start first; the list that \<open>segment_transcript\<close>
  builds is in order of start time, so its ranking breaks ties by the earlier start.
\<close>

theorem ranked_by_score_then_start:
  "sorted_wrt (\<lambda>a b. viral_score b \<le> viral_score a) (score_clips det clips)
   \<and> filter (\<lambda>c. viral_score c = v) (score_clips det clips)
       = filter (\<lambda>c. viral_score c = v)
           (map (\<lambda>clip. (snd (calculate_viral_score det clip))
                            \<lparr>viral_score := fst (calculate_viral_score det clip)\<rparr>) clips)
   \<and> (sorted (map clip_start_time clips) \<longrightarrow> sorted_wrt ranked_before (score_clips det clips))
   \<and> sorted (map clip_start_time (segment_transcript det transcript_segments))
   \<and> sorted_wrt ranked_before (score_clips det (segment_transcript det transcript_segments))"
proof -
  have ranked: "sorted_wrt ranked_before (score_clips det cs)"
    if "sorted (map clip_start_time cs)" for cs
  proof -
    have "sorted_wrt (\<lambda>a b. viral_score a \<ge> viral_score b
            \<and> (viral_score a = viral_score b \<longrightarrow> clip_start_time a \<le> clip_start_time b))
        (score_clips det cs)"
      unfolding score_clips_def
      by (rule py_sorted_reverse_ranked) (simp only: score_clips_start that)
    then show ?thesis by (simp add: ranked_before_def[abs_def])
  qed
  have scored: "(\<lambda>clip. (case calculate_viral_score det clip of
                        (score, clip') \<Rightarrow> clip'\<lparr>viral_score := score\<rparr>))
      = (\<lambda>clip. (snd (calculate_viral_score det clip))
                            \<lparr>viral_score := fst (calculate_viral_score det clip)\<rparr>)"
    by (simp add: fun_eq_iff split: prod.splits)
  have "sorted_wrt (\<lambda>a b. viral_score b \<le> viral_score a) (score_clips det clips)"
    unfolding score_clips_def by (rule py_sorted_reverse_descending)
  moreover have "filter (\<lambda>c. viral_score c = v) (score_clips det clips)
       = filter (\<lambda>c. viral_score c = v)
           (map (\<lambda>clip. (snd (calculate_viral_score det clip))
                            \<lparr>viral_score := fst (calculate_viral_score det clip)\<rparr>) clips)"
    unfolding score_clips_def scored by (rule py_sorted_reverse_stable)
  ultimately show ?thesis
    using ranked segment_transcript_sorted_starts by blast
qed

text \<open>The tie-break of the claim fails on a list that is not in order of start time: two
  candidates with the same score, the later one given first, come back in that order.\<close>

theorem ranking_keeps_input_order_counterexample:
  "map (\<lambda>c. (clip_start_time c, viral_score c))
     (score_clips scenario_detector [late_clip, early_clip]) = [(50, 2), (0, 2)]
   \<and> \<not> sorted_wrt ranked_before (score_clips scenario_detector [late_clip, early_clip])"
  by code_simp

lemma scenario_ranking:
  "map (\<lambda>c. (clip_start_time c, viral_score c))
     (score_clips scenario_detector (segment_transcript scenario_detector scenario_transcript))
   = [(10, 5), (0, 2), (40, 2)]"
  by code_simp

theorem ranked_by_score_then_start_witness:
  "sorted (map clip_start_time (segment_transcript scenario_detector scenario_transcript))
   \<and> map (\<lambda>c. (clip_start_time c, viral_score c))
     (score_clips scenario_detector (segment_transcript scenario_detector scenario_transcript))
   = [(10, 5), (0, 2), (40, 2)]
   \<and> sorted_wrt ranked_before
       (score_clips scenario_detector (segment_transcript scenario_detector scenario_transcript))"
  using ranked_by_score_then_start
      [of scenario_detector "segment_transcript scenario_detector scenario_transcript" 2
          scenario_transcript]
    scenario_ranking
  by simp

subsection \<open>Binary rounding\<close>

subsubsection \<open>The exponent\<close>



subsubsection \<open>Rounding to an integer\<close>








subsubsection \<open>The shape of a rounded value\<close>

















subsubsection \<open>Comparing a rounded quotient with an integer\<close>







subsection \<open>Top-N selection\<close>



















subsection \<open>Caption timestamps\<close>






lemma word_rebuild: "\<lparr>w_word = w_word w, w_start = w_start w, w_end = w_end w\<rparr> = (w::whisper_word)"
  by simp












subsection \<open>Job submission\<close>

lemma submitted_ints:
  "int_of_string ''10'' = Some 10 \<and> int_of_string ''200'' = Some 200
   \<and> int_of_string ''15'' = Some 15 \<and> int_of_string ''45'' = Some 45
   \<and> int_of_string ''20'' = Some 20"
  by code_simp

text \<open>
  Claim C2 says that the processing function receives the timeframe and the clip-length
  triple of the submission. The endpoint parses them and hands them to
  \<open>enqueue_processing_job\<close>, which enqueues six positional arguments only. For a form
  with timeframe 10 to 200 and clip lengths 15/45/20, the function is called with no
  timeframe and the lengths 30/90/60 of its defaults.
\<close>

theorem job_payload_drops_clip_lengths:
  "int_field (submitted_form ''timeframe_start'') VNone = Some (VInt 10)
   \<and> int_field (submitted_form ''timeframe_end'') VNone = Some (VInt 200)
   \<and> int_field (submitted_form ''min_clip_length'') (VInt 30) = Some (VInt 15)
   \<and> int_field (submitted_form ''max_clip_length'') (VInt 90) = Some (VInt 45)
   \<and> int_field (submitted_form ''target_clip_length'') (VInt 60) = Some (VInt 20)
   \<and> received_params (\<lambda>s. True) ''/app/exports'' submitted_form =
       Some \<lparr>p_youtube_url = VStr ''https://youtu.be/abcdefghijk'', p_opus_template = VJson ''{}'',
             p_clip_duration = VInt 30, p_exports_dir = VStr ''/app/exports'',
             p_original_filename = VNone, p_layout_mode = VStr ''fill'',
             p_timeframe_start = VNone, p_timeframe_end = VNone,
             p_min_clip_length = VInt 30, p_max_clip_length = VInt 90,
             p_target_clip_length = VInt 60\<rparr>"
  using submitted_ints
  by (simp add: received_params_def create_job_endpoint_def submitted_form_def int_field_def
      truthy_def str_or_none_def enqueue_processing_job_def kw_get_def
      bind_run_opus_transcription_def arg_or_def Let_def)

subsection \<open>URL validation before the download\<close>

lemma first_match_none:
  "list_all (\<lambda>pattern. re_search pattern url = None) ps \<Longrightarrow> first_match ps url = None"
  by (induction ps) auto

lemma validate_rejects:
  "no_pattern_matches url \<Longrightarrow> fst (validate_youtube_url url) = False"
  by (simp add: validate_youtube_url_def no_pattern_matches_def first_match_none)

text \<open>The search is not anchored: a pattern matches exactly when its literal, followed by
  eleven id characters, occurs somewhere in the URL. In particular a URL that nowhere
  shows one of the four markers followed by an id matches no pattern.\<close>

lemma rmatch_suffix: "v \<in> set (rmatch r u) \<Longrightarrow> suffix v u"
proof (induction r arbitrary: u v)
  case (Lit s)
  then show ?case by (auto simp: suffix_drop split: if_splits)
next
  case (Opt r)
  then show ?case by auto
next
  case (Cat a b)
  from Cat.prems obtain x where x: "x \<in> set (rmatch a u)" and v: "v \<in> set (rmatch b x)"
    by auto
  have "suffix v x" using Cat.IH(2)[OF v] .
  moreover have "suffix x u" using Cat.IH(1)[OF x] .
  ultimately show ?case by (rule suffix_order.trans)
next
  case (Alt a b)
  then show ?case by auto
qed

lemma match_here_Some:
  assumes "match_here r u = Some v"
  shows "\<exists>x \<in> set (rmatch r u). capture_id x = Some v"
proof -
  obtain rest where "List.map_filter capture_id (rmatch r u) = v # rest"
    using assms by (auto simp: match_here_def split: list.splits)
  then have "v \<in> set (List.map_filter capture_id (rmatch r u))" by simp
  then obtain x where "x \<in> set (rmatch r u)" "capture_id x \<noteq> None" "v = the (capture_id x)"
    by (auto simp: List.map_filter_def)
  then show ?thesis by auto
qed

lemma re_search_Some:
  "re_search r url = Some v \<Longrightarrow> \<exists>u. suffix u url \<and> match_here r u = Some v"
proof (induction url)
  case Nil
  then show ?case by auto
next
  case (Cons c cs)
  show ?case
  proof (cases "match_here r (c # cs)")
    case None
    then have "re_search r cs = Some v" using Cons.prems by simp
    then obtain u where "suffix u cs" "match_here r u = Some v" using Cons.IH by blast
    then show ?thesis by (auto intro: suffix_ConsI)
  next
    case (Some a)
    then show ?thesis using Cons.prems by auto
  qed
qed

lemma marker_found:
  assumes "re_search (Cat p (Lit (m0 @ m))) url = Some v"
  shows "\<exists>u. suffix u url \<and> prefix m u \<and> capture_id (drop (length m) u) \<noteq> None"
proof -
  obtain u where u: "suffix u url" and mh: "match_here (Cat p (Lit (m0 @ m))) u = Some v"
    using re_search_Some[OF assms] by blast
  obtain x where x: "x \<in> set (rmatch (Cat p (Lit (m0 @ m))) u)" and c: "capture_id x = Some v"
    using match_here_Some[OF mh] by blast
  from x obtain y where y: "y \<in> set (rmatch p u)" and pre: "prefix (m0 @ m) y"
    and xd: "x = drop (length (m0 @ m)) y"
    by (auto split: if_splits)
  let ?z = "drop (length m0) y"
  have "suffix ?z y" by (rule suffix_drop)
  moreover have "suffix y u" using rmatch_suffix[OF y] .
  ultimately have "suffix ?z url" using u by (meson suffix_order.trans)
  moreover have "prefix m ?z" using pre by (auto simp: prefix_def)
  moreover have "drop (length m) ?z = x" using xd by (simp add: add.commute)
  ultimately show ?thesis using c by auto
qed

lemma unmentioned_id_no_match:
  assumes "\<not> mentions_video_id url"
  shows "no_pattern_matches url"
proof -
  have none: "\<not> (\<exists>u. suffix u url \<and> prefix m u \<and> capture_id (drop (length m) u) \<noteq> None)"
    if "m \<in> {''watch?v='', ''youtu.be/'', ''embed/'', ''/v/''}" for m
    using assms that unfolding mentions_video_id_def list_ex_iff in_set_suffixes by auto
  have 1: "re_search (Cat url_prefix (Lit (''youtube.com/'' @ ''watch?v=''))) url = None"
    using marker_found[of url_prefix "''youtube.com/''" "''watch?v=''" url] none[of "''watch?v=''"]
    by (cases "re_search (Cat url_prefix (Lit (''youtube.com/'' @ ''watch?v=''))) url") auto
  have 2: "re_search (Cat url_prefix (Lit ([] @ ''youtu.be/''))) url = None"
    using marker_found[of url_prefix "[]" "''youtu.be/''" url] none[of "''youtu.be/''"]
    by (cases "re_search (Cat url_prefix (Lit ([] @ ''youtu.be/''))) url") auto
  have 3: "re_search (Cat url_prefix (Lit (''youtube.com/'' @ ''embed/''))) url = None"
    using marker_found[of url_prefix "''youtube.com/''" "''embed/''" url] none[of "''embed/''"]
    by (cases "re_search (Cat url_prefix (Lit (''youtube.com/'' @ ''embed/''))) url") auto
  have 4: "re_search (Cat url_prefix (Lit (''youtube.com'' @ ''/v/''))) url = None"
    using marker_found[of url_prefix "''youtube.com''" "''/v/''" url] none[of "''/v/''"]
    by (cases "re_search (Cat url_prefix (Lit (''youtube.com'' @ ''/v/''))) url") auto
  show ?thesis
    using 1 2 3 4 by (simp add: no_pattern_matches_def youtube_patterns_def)
qed

text \<open>
  Claim C10. For every URL that none of the four patterns of \<open>validate_youtube_url\<close>
  matches, \<open>download_youtube_video\<close> raises \<open>ValueError\<close> and leaves the machine as it
  was, and \<open>run_opus_transcription\<close> ends with that error without having run a child
  process: the downloader is never started.
\<close>

theorem unmatched_url_rejected_before_download:
  assumes "no_pattern_matches url"
  shows "fst (run_opus_transcription env url w) = Inl ValueError
     \<and> w_subprocess (snd (run_opus_transcription env url w)) = w_subprocess w
     \<and> fst (download_youtube_video env url temp_dir w) = Inl ValueError
     \<and> snd (download_youtube_video env url temp_dir w) = w"
proof -
  have d: "download_youtube_video env url t w' = (Inl ValueError, w')" for t w'
    using validate_rejects[OF assms]
    by (cases "validate_youtube_url url") (simp add: download_youtube_video_def)
  show ?thesis
    by (simp add: run_opus_transcription_def Let_def d update_job_progress_def rmtree_def)
qed

lemma vimeo_unmatched: "no_pattern_matches ''https://vimeo.com/12345''"
  by code_simp

theorem unmatched_url_rejected_before_download_witness:
  "no_pattern_matches ''https://vimeo.com/12345''
   \<and> fst (run_opus_transcription example_env ''https://vimeo.com/12345'' empty_world)
       = Inl ValueError
   \<and> w_subprocess (snd (run_opus_transcription example_env ''https://vimeo.com/12345''
        empty_world)) = []"
  using unmatched_url_rejected_before_download [OF vimeo_unmatched, of example_env empty_world]
    vimeo_unmatched
  by (simp add: empty_world_def)

subsection \<open>Temporary files\<close>







subsection \<open>The face center\<close>

lemma no_face_no_centers:
  "no_face_detected v \<Longrightarrow> concat (map frame_faces (sampled_frames v)) = []"
  by (auto simp: no_face_detected_def list_all_iff frame_faces_def)

text \<open>
  Claim C7, amended. \<open>detect_face_center\<close> raises \<open>ValueError\<close> when the video cannot
  be opened. When the video opens and no face is detected in the sampled frames, it
  returns the center of the first frame, and raises \<open>ValueError\<close> when there is no frame
  to read.
\<close>

theorem face_center_fallback:
  "(\<not> v_opened v \<longrightarrow> detect_face_center v prefer_left_side segment_time = Inl ValueError)
   \<and> (v_opened v \<and> no_face_detected v \<longrightarrow>
        detect_face_center v prefer_left_side segment_time =
          (case v_frames v of
             [] \<Rightarrow> Inl ValueError
           | fr # _ \<Rightarrow> Inr (fr_width fr div 2, fr_height fr div 2)))"
  by (simp add: detect_face_center_def Let_def no_face_no_centers)

text \<open>The operation raises on a video that cannot be opened.\<close>

theorem face_center_raises_counterexample:
  "detect_face_center unopened_video True None = Inl ValueError"
  by (simp add: detect_face_center_def unopened_video_def)

lemma faceless_video_no_face: "no_face_detected faceless_video"
  by (simp add: no_face_detected_def faceless_video_def sampled_frames_def enumerate_eq_zip)

theorem face_center_fallback_witness:
  "\<not> v_opened unopened_video
   \<and> detect_face_center unopened_video False (Some 12) = Inl ValueError
   \<and> v_opened faceless_video \<and> no_face_detected faceless_video
   \<and> detect_face_center faceless_video True None = Inr (960, 540)"
  using face_center_fallback [of unopened_video False "Some 12"]
    face_center_fallback [of faceless_video True None] faceless_video_no_face
  by (simp add: unopened_video_def faceless_video_def)

subsection \<open>Hindi cleanup\<close>













end
